theory Spec2Isabelle
  imports Complex_Main "HOL-Library.Dlist" "HOL-Library.Char_ord" "HOL-Library.List_Lexorder"
begin

section \<open>Python values, exceptions and configuration\<close>

text \<open>
  Exceptions raised inside the modelled methods are values of type \<open>error\<close>; a method
  that may raise returns \<open>error + 'a\<close> with \<open>Inl\<close> for the exception. Python floats are
  modelled by \<open>pyfloat\<close>: a real number or NaN (rounding is not modelled). Strings are
  byte lists; the Cyrillic literals of the source are written as their UTF-8 bytes.
\<close>

datatype error =
    TypeError
  | StopIteration
  | AttributeError string
  | KeyError string
  | ValueError string
  | IndexError
  | ConnectionClosed
  | Upstream string

datatype pyfloat = Num real | NaN

fun fadd :: "pyfloat \<Rightarrow> pyfloat \<Rightarrow> pyfloat" where
  "fadd (Num a) (Num b) = Num (a + b)"
| "fadd _ _ = NaN"

fun fsub :: "pyfloat \<Rightarrow> pyfloat \<Rightarrow> pyfloat" where
  "fsub (Num a) (Num b) = Num (a - b)"
| "fsub _ _ = NaN"

fun fmul :: "pyfloat \<Rightarrow> pyfloat \<Rightarrow> pyfloat" where
  "fmul (Num a) (Num b) = Num (a * b)"
| "fmul _ _ = NaN"

definition bind_err :: "error + 'a \<Rightarrow> ('a \<Rightarrow> error + 'b) \<Rightarrow> error + 'b" where
  "bind_err r f = (case r of Inl e \<Rightarrow> Inl e | Inr v \<Rightarrow> f v)"

datatype candle_interval =
  CANDLE_INTERVAL_5_MIN | CANDLE_INTERVAL_HOUR | CANDLE_INTERVAL_DAY

text \<open>
  A strategy profile, the value of \<open>Config.STRATEGY_PARAMS[mode]\<close> as \<open>analyze\<close> reads it
  (keys \<open>days\<close>, \<open>interval\<close>, \<open>min_candles\<close>, \<open>ema\<close>, \<open>rsi\<close>, \<open>atr\<close>).
\<close>

record profile =
  p_days :: int
  p_interval :: candle_interval
  p_min_candles :: int
  p_ema :: int
  p_rsi :: int
  p_atr :: int

text \<open>
  The configuration class. \<open>STRATEGY_PARAMS\<close> is \<open>None\<close> when the class has no such
  attribute (reading it raises AttributeError); dictionaries read by key are maps.
\<close>

record config =
  ML_features :: "string list"
  ML_training_days :: int
  ML_training_interval :: candle_interval
  STREAMING_depth :: int
  STREAMING_max_subscriptions :: int
  STREAMING_reconnect_timeout :: int
  STRATEGY_PARAMS :: "(string \<rightharpoonup> profile) option"
  RISK_MANAGEMENT :: "string \<rightharpoonup> real"

text \<open>The configuration as config.py declares it: it has no \<open>STRATEGY_PARAMS\<close>.\<close>

definition Config :: config where
  "Config = \<lparr> ML_features = [''ema'', ''rsi'', ''atr'', ''volume''],
              ML_training_days = 30,
              ML_training_interval = CANDLE_INTERVAL_HOUR,
              STREAMING_depth = 10,
              STREAMING_max_subscriptions = 50,
              STREAMING_reconnect_timeout = 5,
              STRATEGY_PARAMS = None,
              RISK_MANAGEMENT = map_of [(''max_daily_loss'', 2), (''position_size'', 3 / 2),
                                        (''slippage'', 1 / 10)] \<rparr>"

section \<open>MarketDataService\<close>

record quotation =
  units :: int
  nano :: int

text \<open>\<open>q.units + q.nano / 1e9\<close>\<close>

definition convert_quotation :: "quotation \<Rightarrow> real" where
  "convert_quotation q = of_int (units q) + of_int (nano q) / 1000000000"

record level =
  lv_price :: quotation
  lv_quantity :: int

record snapshot =
  sn_bids :: "(real \<times> int) list"
  sn_asks :: "(real \<times> int) list"
  sn_timestamp :: nat

text \<open>The payload dictionary of an order-book message; a key may be missing.\<close>

record payload =
  pl_figi :: "string option"
  pl_bids :: "level list option"
  pl_asks :: "level list option"

record message =
  msg_event :: string
  msg_figi :: string
  msg_depth :: int

text \<open>
  A websocket connection: the messages sent over it so far and the number of further
  sends the link will carry before it breaks (0 for a closed connection).
\<close>

record websocket =
  ws_sent :: "message list"
  ws_budget :: nat

record historic_candle =
  c_open :: quotation
  c_high :: quotation
  c_low :: quotation
  c_close :: quotation
  c_volume :: int

text \<open>
  The service object. The subscription set is a duplicate-free list; its order is the
  (unspecified) iteration order of the Python set.
\<close>

record market_data_service =
  orderbooks :: "string \<rightharpoonup> snapshot"
  candles_cache :: "string \<rightharpoonup> historic_candle list"
  subscriptions :: "string dlist"
  ws :: "websocket option"

definition market_init :: market_data_service where
  "market_init = \<lparr> orderbooks = Map.empty, candles_cache = Map.empty,
                   subscriptions = Dlist.empty, ws = None \<rparr>"

definition ws_send :: "websocket \<Rightarrow> message \<Rightarrow> error + websocket" where
  "ws_send w m =
     (if ws_budget w = 0 then Inl ConnectionClosed
      else Inr (w\<lparr> ws_sent := ws_sent w @ [m], ws_budget := ws_budget w - 1 \<rparr>))"

definition ws_close :: "websocket \<Rightarrow> websocket" where
  "ws_close w = w\<lparr> ws_budget := 0 \<rparr>"

definition subscribe_message :: "config \<Rightarrow> string \<Rightarrow> message" where
  "subscribe_message cfg figi =
     \<lparr> msg_event = ''orderbook:subscribe'', msg_figi = figi, msg_depth = STREAMING_depth cfg \<rparr>"

definition dict_key :: "string \<Rightarrow> 'a option \<Rightarrow> error + 'a" where
  "dict_key k v = (case v of None \<Rightarrow> Inl (KeyError k) | Some x \<Rightarrow> Inr x)"

definition level_pair :: "level \<Rightarrow> real \<times> int" where
  "level_pair l = (convert_quotation (lv_price l), lv_quantity l)"

text \<open>
  \<open>_process_orderbook\<close>: the dictionary display on the right is evaluated first (bids, asks,
  the clock), then the key \<open>data["figi"]\<close>, then the item is stored. An exception leaves
  the service unchanged.
\<close>

definition process_orderbook :: "nat \<Rightarrow> payload \<Rightarrow> market_data_service \<Rightarrow> error + market_data_service" where
  "process_orderbook now data m =
     bind_err (dict_key ''bids'' (pl_bids data)) (\<lambda>bids.
     bind_err (dict_key ''asks'' (pl_asks data)) (\<lambda>asks.
     bind_err (dict_key ''figi'' (pl_figi data)) (\<lambda>figi.
       Inr (m\<lparr> orderbooks := (orderbooks m)(figi \<mapsto>
              \<lparr> sn_bids = map level_pair bids, sn_asks = map level_pair asks,
                sn_timestamp = now \<rparr>) \<rparr>))))"

text \<open>
  \<open>subscribe\<close>: the identifier is added before the send, so a failing send leaves it in the
  set. The result is the exception that escapes (if any) and the service afterwards.
\<close>

definition subscribe :: "config \<Rightarrow> string \<Rightarrow> market_data_service \<Rightarrow> error option \<times> market_data_service" where
  "subscribe cfg figi m =
     (if Dlist.member (subscriptions m) figi then (None, m)
      else
        let m' = m\<lparr> subscriptions := Dlist.insert figi (subscriptions m) \<rparr> in
        (case ws m' of
           None \<Rightarrow> (None, m')
         | Some w \<Rightarrow>
             (case ws_send w (subscribe_message cfg figi) of
                Inl e \<Rightarrow> (Some e, m')
              | Inr w' \<Rightarrow> (None, m'\<lparr> ws := Some w' \<rparr>))))"

fun subscribe_all :: "config \<Rightarrow> string list \<Rightarrow> market_data_service \<Rightarrow> market_data_service" where
  "subscribe_all cfg [] m = m"
| "subscribe_all cfg (f # fs) m = subscribe_all cfg fs (snd (subscribe cfg f m))"

text \<open>The loop of \<open>_resubscribe\<close> over the connection: it stops at the first failing send.\<close>

fun send_each :: "config \<Rightarrow> string list \<Rightarrow> websocket \<Rightarrow> error option \<times> websocket" where
  "send_each cfg [] w = (None, w)"
| "send_each cfg (f # fs) w =
     (case ws_send w (subscribe_message cfg f) of
        Inl e \<Rightarrow> (Some e, w)
      | Inr w' \<Rightarrow> send_each cfg fs w')"

definition resubscribe :: "config \<Rightarrow> market_data_service \<Rightarrow> error option \<times> market_data_service" where
  "resubscribe cfg m =
     (case list_of_dlist (subscriptions m) of
        [] \<Rightarrow> (None, m)
      | f # fs \<Rightarrow>
          (case ws m of
             None \<Rightarrow> (Some (AttributeError ''send''), m)
           | Some w \<Rightarrow>
               (let (r, w') = send_each cfg (f # fs) w in (r, m\<lparr> ws := Some w' \<rparr>))))"

text \<open>
  A decoded frame of the stream: an order-book event with its payload and arrival time,
  any other event, or a frame whose decoding raises.
\<close>

datatype frame = Orderbook payload nat | Other_event | Bad_frame error

text \<open>
  \<open>_stream_handler\<close> over the frames a connection delivers; \<open>closing\<close> is the exception
  with which the iteration over the connection ends, if it ends with one.
\<close>

fun stream_handler :: "frame list \<Rightarrow> error option \<Rightarrow> market_data_service \<Rightarrow> error option \<times> market_data_service" where
  "stream_handler [] closing m = (closing, m)"
| "stream_handler (Orderbook data now # fs) closing m =
     (case process_orderbook now data m of
        Inl e \<Rightarrow> (Some e, m)
      | Inr m' \<Rightarrow> stream_handler fs closing m')"
| "stream_handler (Other_event # fs) closing m = stream_handler fs closing m"
| "stream_handler (Bad_frame e # fs) closing m = (Some e, m)"

text \<open>
  One connection attempt of \<open>start_streaming\<close>: the connect raises, or it yields a
  connection together with what that connection will deliver.
\<close>

datatype attempt = Refused error | Connected websocket "frame list" "error option"

definition close_ws :: "market_data_service \<Rightarrow> market_data_service" where
  "close_ws m = m\<lparr> ws := map_option ws_close (ws m) \<rparr>"

text \<open>
  One iteration of the \<open>while True\<close> loop. Leaving the \<open>async with\<close> block closes the
  connection; \<open>self.ws\<close> keeps referring to it. The first component is the exception the
  \<open>except\<close> clause caught (then the loop sleeps before the next attempt).
\<close>

fun streaming_iteration :: "config \<Rightarrow> attempt \<Rightarrow> market_data_service \<Rightarrow> error option \<times> market_data_service" where
  "streaming_iteration cfg (Refused e) m = (Some e, m)"
| "streaming_iteration cfg (Connected w fs closing) m =
     (case resubscribe cfg (m\<lparr> ws := Some w \<rparr>) of
        (Some e, m1) \<Rightarrow> (Some e, close_ws m1)
      | (None, m1) \<Rightarrow>
          (let (r, m2) = stream_handler fs closing m1 in (r, close_ws m2)))"

text \<open>
  \<open>start_streaming\<close> never returns; its behaviour is the service after each finite
  sequence of connection attempts.
\<close>

fun start_streaming :: "config \<Rightarrow> attempt list \<Rightarrow> market_data_service \<Rightarrow> market_data_service" where
  "start_streaming cfg [] m = m"
| "start_streaming cfg (a # as) m = start_streaming cfg as (snd (streaming_iteration cfg a m))"

section \<open>TradingEngine\<close>

text \<open>An item of the exchange's share listing, as far as \<open>get_instruments\<close> reads it.\<close>

record share =
  sh_figi :: string
  sh_ticker :: string
  sh_name :: string

text \<open>An instrument dictionary: keys and (string) values in insertion order.\<close>

type_synonym dict = "(string \<times> string) list"

text \<open>The UTF-8 bytes of the Cyrillic literals: share, hold, buy, sell, not enough data.\<close>

definition aktsiya :: string where
  "aktsiya = [CHR 0xD0, CHR 0xB0, CHR 0xD0, CHR 0xBA, CHR 0xD1, CHR 0x86, CHR 0xD0, CHR 0xB8,
              CHR 0xD1, CHR 0x8F]"

definition Derzhat :: string where
  "Derzhat = [CHR 0xD0, CHR 0x94, CHR 0xD0, CHR 0xB5, CHR 0xD1, CHR 0x80, CHR 0xD0, CHR 0xB6,
              CHR 0xD0, CHR 0xB0, CHR 0xD1, CHR 0x82, CHR 0xD1, CHR 0x8C]"

definition Pokupat :: string where
  "Pokupat = [CHR 0xD0, CHR 0x9F, CHR 0xD0, CHR 0xBE, CHR 0xD0, CHR 0xBA, CHR 0xD1, CHR 0x83,
              CHR 0xD0, CHR 0xBF, CHR 0xD0, CHR 0xB0, CHR 0xD1, CHR 0x82, CHR 0xD1, CHR 0x8C]"

definition Prodavat :: string where
  "Prodavat = [CHR 0xD0, CHR 0x9F, CHR 0xD1, CHR 0x80, CHR 0xD0, CHR 0xBE, CHR 0xD0, CHR 0xB4,
               CHR 0xD0, CHR 0xB0, CHR 0xD0, CHR 0xB2, CHR 0xD0, CHR 0xB0, CHR 0xD1, CHR 0x82,
               CHR 0xD1, CHR 0x8C]"

definition Nedostatochno_dannyh :: string where
  "Nedostatochno_dannyh =
     [CHR 0xD0, CHR 0x9D, CHR 0xD0, CHR 0xB5, CHR 0xD0, CHR 0xB4, CHR 0xD0, CHR 0xBE, CHR 0xD1,
      CHR 0x81, CHR 0xD1, CHR 0x82, CHR 0xD0, CHR 0xB0, CHR 0xD1, CHR 0x82, CHR 0xD0, CHR 0xBE,
      CHR 0xD1, CHR 0x87, CHR 0xD0, CHR 0xBD, CHR 0xD0, CHR 0xBE, CHR 0x20, CHR 0xD0, CHR 0xB4,
      CHR 0xD0, CHR 0xB0, CHR 0xD0, CHR 0xBD, CHR 0xD0, CHR 0xBD, CHR 0xD1, CHR 0x8B, CHR 0xD1,
      CHR 0x85]"

text \<open>
  A classifier object: what \<open>predict(...)[0]\<close> and \<open>predict_proba(...)[0][1]\<close> give on a
  feature vector (an unfitted classifier raises).
\<close>

record classifier =
  clf_predict :: "pyfloat list \<Rightarrow> error + int"
  clf_predict_proba :: "pyfloat list \<Rightarrow> error + real"

text \<open>
  Everything outside the repository that the engine calls: the exchange client, the
  indicator library (a call gives a series, or \<open>None\<close> when the library returns no
  series), the classifier class and the clock.
\<close>

record world =
  shares :: "error + share list"
  get_candles :: "string \<Rightarrow> int \<Rightarrow> candle_interval \<Rightarrow> error + historic_candle list"
  ta_ema :: "real list \<Rightarrow> int \<Rightarrow> error + pyfloat list option"
  ta_rsi :: "real list \<Rightarrow> int \<Rightarrow> error + pyfloat list option"
  ta_atr :: "real list \<Rightarrow> real list \<Rightarrow> real list \<Rightarrow> int \<Rightarrow> error + pyfloat list option"
  model_class :: "error + classifier"
  fit :: "classifier \<Rightarrow> pyfloat list list \<Rightarrow> int list \<Rightarrow> error + classifier"
  score :: "classifier \<Rightarrow> pyfloat list list \<Rightarrow> int list \<Rightarrow> error + real"
  clock :: nat

record engine =
  market :: market_data_service
  ml_model :: "classifier option"
  last_trained :: "nat option"

definition engine_init :: engine where
  "engine_init = \<lparr> market = market_init, ml_model = None, last_trained = None \<rparr>"

definition get_historical_candles ::
  "world \<Rightarrow> string \<Rightarrow> int \<Rightarrow> candle_interval \<Rightarrow> error + historic_candle list" where
  "get_historical_candles w figi days interval = get_candles w figi days interval"

definition instrument_dict :: "share \<Rightarrow> dict" where
  "instrument_dict item =
     [(''figi'', sh_figi item), (''ticker'', sh_ticker item), (''name'', sh_name item),
      (''type'', aktsiya)]"

definition get_instruments :: "world \<Rightarrow> error + dict list" where
  "get_instruments w = bind_err (shares w) (\<lambda>items. Inr (map instrument_dict items))"

text \<open>\<open>d[k]\<close> and \<open>xs[-1]\<close>\<close>

definition dict_item :: "dict \<Rightarrow> string \<Rightarrow> error + string" where
  "dict_item d k = dict_key k (map_of d k)"

definition list_last :: "'a list \<Rightarrow> error + 'a" where
  "list_last xs = (if xs = [] then Inl IndexError else Inr (last xs))"

text \<open>\<open>str.upper\<close> on ASCII text: the letters a to z are mapped to A to Z.\<close>

definition upper_char :: "char \<Rightarrow> char" where
  "upper_char c =
     (case map_of (zip ''abcdefghijklmnopqrstuvwxyz'' ''ABCDEFGHIJKLMNOPQRSTUVWXYZ'') c of
        None \<Rightarrow> c
      | Some u \<Rightarrow> u)"

definition upper :: "string \<Rightarrow> string" where
  "upper s = map upper_char s"

text \<open>\<open>next(i for i in instruments if i["ticker"] == ticker.upper())\<close>\<close>

fun resolve :: "dict list \<Rightarrow> string \<Rightarrow> error + dict" where
  "resolve [] ticker = Inl StopIteration"
| "resolve (i # is) ticker =
     bind_err (dict_item i ''ticker'') (\<lambda>t.
       if t = upper ticker then Inr i else resolve is ticker)"

definition lookup_profile :: "config \<Rightarrow> string \<Rightarrow> error + profile" where
  "lookup_profile cfg mode =
     (case STRATEGY_PARAMS cfg of
        None \<Rightarrow> Inl (AttributeError ''STRATEGY_PARAMS'')
      | Some table \<Rightarrow> dict_key mode (table mode))"

text \<open>\<open>.iloc[-1]\<close> on what an indicator call returned.\<close>

definition iloc_last :: "pyfloat list option \<Rightarrow> error + pyfloat" where
  "iloc_last r =
     (case r of
        None \<Rightarrow> Inl (AttributeError ''iloc'')
      | Some xs \<Rightarrow> list_last xs)"

text \<open>The \<open>analysis\<close> dictionary; the key \<open>ml_confidence\<close> is present only after the model step.\<close>

record analysis =
  a_ema :: pyfloat
  a_rsi :: pyfloat
  a_atr :: pyfloat
  a_decision :: string
  a_stop_loss :: pyfloat
  a_take_profit :: pyfloat
  a_ml_confidence :: "pyfloat option"

definition closes_of :: "historic_candle list \<Rightarrow> real list" where
  "closes_of candles = map (\<lambda>c. convert_quotation (c_close c)) candles"

definition highs_of :: "historic_candle list \<Rightarrow> real list" where
  "highs_of candles = map (\<lambda>c. convert_quotation (c_high c)) candles"

definition lows_of :: "historic_candle list \<Rightarrow> real list" where
  "lows_of candles = map (\<lambda>c. convert_quotation (c_low c)) candles"

definition technical_analysis ::
  "config \<Rightarrow> world \<Rightarrow> historic_candle list \<Rightarrow> profile \<Rightarrow> error + analysis" where
  "technical_analysis cfg w candles params =
     (let closes = closes_of candles; highs = highs_of candles; lows = lows_of candles in
      bind_err (bind_err (ta_ema w closes (p_ema params)) iloc_last) (\<lambda>ema.
      bind_err (bind_err (ta_rsi w closes (p_rsi params)) iloc_last) (\<lambda>rsi.
      bind_err (bind_err (ta_atr w highs lows closes (p_atr params)) iloc_last) (\<lambda>atr.
      bind_err (list_last closes) (\<lambda>last_price.
      bind_err (dict_key ''stop_loss_multiplier''
                  (RISK_MANAGEMENT cfg ''stop_loss_multiplier'')) (\<lambda>sl.
      bind_err (dict_key ''take_profit_multiplier''
                  (RISK_MANAGEMENT cfg ''take_profit_multiplier'')) (\<lambda>tp.
        Inr \<lparr> a_ema = ema, a_rsi = rsi, a_atr = atr, a_decision = Derzhat,
              a_stop_loss = fsub (Num last_price) (fmul atr (Num sl)),
              a_take_profit = fadd (Num last_price) (fmul atr (Num tp)),
              a_ml_confidence = None \<rparr>)))))))"

text \<open>\<open>[features[k] for k in Config.ML_SETTINGS["features"]]\<close>\<close>

fun feature_vector :: "(string \<times> pyfloat) list \<Rightarrow> string list \<Rightarrow> error + pyfloat list" where
  "feature_vector features [] = Inr []"
| "feature_vector features (k # ks) =
     bind_err (dict_key k (map_of features k)) (\<lambda>v.
     bind_err (feature_vector features ks) (\<lambda>vs. Inr (v # vs)))"

text \<open>The model step of \<open>analyze\<close> (the block under \<open>if self.ml_model\<close>).\<close>

definition ml_analysis ::
  "config \<Rightarrow> engine \<Rightarrow> historic_candle list \<Rightarrow> analysis \<Rightarrow> error + analysis" where
  "ml_analysis cfg e candles a =
     (case ml_model e of
        None \<Rightarrow> Inr a
      | Some clf \<Rightarrow>
          bind_err (list_last candles) (\<lambda>c.
          let features = [(''ema'', a_ema a), (''rsi'', a_rsi a), (''atr'', a_atr a),
                          (''volume'', Num (of_int (c_volume c)))] in
          bind_err (feature_vector features (ML_features cfg)) (\<lambda>v.
          bind_err (clf_predict clf v) (\<lambda>ml_pred.
          bind_err (feature_vector features (ML_features cfg)) (\<lambda>v'.
          bind_err (clf_predict_proba clf v') (\<lambda>proba.
            Inr (a\<lparr> a_ml_confidence := Some (Num (proba * 100)),
                     a_decision := (if ml_pred = 1 then Pokupat else Prodavat) \<rparr>)))))))"

record analysis_result =
  res_ticker :: string
  res_decision :: string
  res_confidence :: pyfloat
  res_price :: real
  res_stop_loss :: pyfloat
  res_take_profit :: pyfloat
  res_timestamp :: nat

text \<open>
  \<open>analyze\<close>. \<open>Inr\<close> is the result dictionary, \<open>Inl e\<close> the dictionary with the single key
  \<open>error\<close> that the \<open>except\<close> clause returns for the exception \<open>e\<close>.
\<close>

definition analyze ::
  "config \<Rightarrow> world \<Rightarrow> engine \<Rightarrow> string \<Rightarrow> string \<Rightarrow> error + analysis_result" where
  "analyze cfg w e ticker mode =
     bind_err (get_instruments w) (\<lambda>instruments.
     bind_err (resolve instruments ticker) (\<lambda>instrument.
     bind_err (lookup_profile cfg mode) (\<lambda>params.
     bind_err (dict_item instrument ''figi'') (\<lambda>figi.
     bind_err (get_historical_candles w figi (p_days params) (p_interval params)) (\<lambda>candles.
       if int (length candles) < p_min_candles params
       then Inl (ValueError Nedostatochno_dannyh)
       else
         bind_err (technical_analysis cfg w candles params) (\<lambda>a.
         bind_err (ml_analysis cfg e candles a) (\<lambda>a'.
         bind_err (list_last candles) (\<lambda>c.
           Inr \<lparr> res_ticker = upper ticker,
                 res_decision = a_decision a',
                 res_confidence = (case a_ml_confidence a' of None \<Rightarrow> Num 0 | Some x \<Rightarrow> x),
                 res_price = convert_quotation (c_close c),
                 res_stop_loss = a_stop_loss a',
                 res_take_profit = a_take_profit a',
                 res_timestamp = clock w \<rparr>))))))))"

subsection \<open>Top instruments\<close>

text \<open>
  The sort key \<open>x.get("volume", 0)\<close> is the stored string or the integer 0. Python orders
  integers with integers and strings with strings; a mixed comparison raises TypeError.
\<close>

datatype pyval = PyStr string | PyInt int

definition volume_key :: "dict \<Rightarrow> pyval" where
  "volume_key x = (case map_of x ''volume'' of None \<Rightarrow> PyInt 0 | Some v \<Rightarrow> PyStr v)"

fun py_less :: "pyval \<Rightarrow> pyval \<Rightarrow> error + bool" where
  "py_less (PyInt a) (PyInt b) = Inr (a < b)"
| "py_less (PyStr a) (PyStr b) = Inr (a < b)"
| "py_less _ _ = Inl TypeError"

text \<open>
  \<open>sorted(..., reverse=True)\<close> is stable: descending keys, equal keys in their original
  order. The element \<open>x\<close> precedes all of \<open>ys\<close> in the input, so it moves behind \<open>y\<close>
  only when its key is strictly smaller.
\<close>

fun insert_reverse :: "('a \<Rightarrow> pyval) \<Rightarrow> 'a \<Rightarrow> 'a list \<Rightarrow> error + 'a list" where
  "insert_reverse key x [] = Inr [x]"
| "insert_reverse key x (y # ys) =
     bind_err (py_less (key x) (key y)) (\<lambda>smaller.
       if smaller then bind_err (insert_reverse key x ys) (\<lambda>r. Inr (y # r))
       else Inr (x # y # ys))"

fun sorted_reverse :: "('a \<Rightarrow> pyval) \<Rightarrow> 'a list \<Rightarrow> error + 'a list" where
  "sorted_reverse key [] = Inr []"
| "sorted_reverse key (x # xs) = bind_err (sorted_reverse key xs) (insert_reverse key x)"

definition get_top_instruments :: "world \<Rightarrow> error + dict list" where
  "get_top_instruments w =
     bind_err (get_instruments w) (\<lambda>instruments.
     bind_err (sorted_reverse volume_key instruments) (\<lambda>s. Inr (take 5 s)))"

subsection \<open>Training\<close>

text \<open>A row of the training table built by \<open>_prepare_training_data\<close>.\<close>

record row =
  r_open :: real
  r_high :: real
  r_low :: real
  r_close :: real
  r_volume :: int
  r_ema :: pyfloat
  r_rsi :: pyfloat
  r_atr :: pyfloat
  r_target :: int

type_synonym dataframe = "row list"

definition column_at :: "pyfloat list option \<Rightarrow> nat \<Rightarrow> pyfloat" where
  "column_at col i =
     (case col of None \<Rightarrow> NaN | Some xs \<Rightarrow> if i < length xs then xs ! i else NaN)"

text \<open>\<open>(close.shift(-1) > close).astype(int)\<close>: the last row compares with NaN and gets 0.\<close>

definition target_at :: "real list \<Rightarrow> nat \<Rightarrow> int" where
  "target_at closes i = (if Suc i < length closes \<and> closes ! i < closes ! Suc i then 1 else 0)"

definition prepare_training_data :: "world \<Rightarrow> historic_candle list \<Rightarrow> error + dataframe" where
  "prepare_training_data w candles =
     (if candles = [] then Inl (KeyError ''close'')
      else
        bind_err (ta_ema w (closes_of candles) 9) (\<lambda>ema.
        bind_err (ta_rsi w (closes_of candles) 14) (\<lambda>rsi.
        bind_err (ta_atr w (highs_of candles) (lows_of candles) (closes_of candles) 14) (\<lambda>atr.
          Inr (filter (\<lambda>r. r_ema r \<noteq> NaN \<and> r_rsi r \<noteq> NaN \<and> r_atr r \<noteq> NaN)
                 (map (\<lambda>i. \<lparr> r_open = convert_quotation (c_open (candles ! i)),
                             r_high = convert_quotation (c_high (candles ! i)),
                             r_low = convert_quotation (c_low (candles ! i)),
                             r_close = convert_quotation (c_close (candles ! i)),
                             r_volume = c_volume (candles ! i),
                             r_ema = column_at ema i, r_rsi = column_at rsi i,
                             r_atr = column_at atr i,
                             r_target = target_at (closes_of candles) i \<rparr>)
                    [0..<length candles]))))))"

text \<open>The loop over the instruments, lines 131 to 138.\<close>

fun collect_training_data :: "config \<Rightarrow> world \<Rightarrow> dict list \<Rightarrow> error + dataframe list" where
  "collect_training_data cfg w [] = Inr []"
| "collect_training_data cfg w (instr # rest) =
     bind_err (dict_item instr ''figi'') (\<lambda>figi.
     bind_err (get_historical_candles w figi (ML_training_days cfg) (ML_training_interval cfg))
       (\<lambda>candles.
     bind_err (prepare_training_data w candles) (\<lambda>df.
     bind_err (collect_training_data cfg w rest) (\<lambda>dfs. Inr (df # dfs)))))"

definition pd_concat :: "dataframe list \<Rightarrow> error + dataframe" where
  "pd_concat data =
     (if data = [] then Inl (ValueError ''No objects to concatenate'') else Inr (concat data))"

definition row_items :: "row \<Rightarrow> (string \<times> pyfloat) list" where
  "row_items r =
     [(''open'', Num (r_open r)), (''high'', Num (r_high r)), (''low'', Num (r_low r)),
      (''close'', Num (r_close r)), (''volume'', Num (of_int (r_volume r))),
      (''ema'', r_ema r), (''rsi'', r_rsi r), (''atr'', r_atr r),
      (''target'', Num (of_int (r_target r)))]"

definition column_names :: "string list" where
  "column_names = [''open'', ''high'', ''low'', ''close'', ''volume'', ''ema'', ''rsi'', ''atr'',
                   ''target'']"

text \<open>\<open>full_data[names]\<close>: KeyError for a name that is no column.\<close>

definition select_columns :: "string list \<Rightarrow> dataframe \<Rightarrow> error + pyfloat list list" where
  "select_columns names df =
     (case filter (\<lambda>k. k \<notin> set column_names) names of
        k # _ \<Rightarrow> Inl (KeyError k)
      | [] \<Rightarrow> Inr (map (\<lambda>r. map (\<lambda>k. case map_of (row_items r) k of
                                        None \<Rightarrow> NaN | Some v \<Rightarrow> v) names) df))"

text \<open>
  Lines 129 to 149 of \<open>train_model\<close>, for a given instrument list. The new classifier is
  stored in \<open>self.ml_model\<close> before it is fitted; \<open>last_trained\<close> is set after the fit. The
  result is the exception the \<open>except\<close> clause caught (if any) and the engine afterwards.
\<close>

definition train_on :: "config \<Rightarrow> world \<Rightarrow> dict list \<Rightarrow> engine \<Rightarrow> error option \<times> engine" where
  "train_on cfg w instruments e =
     (case bind_err (collect_training_data cfg w instruments) (\<lambda>data.
           bind_err (pd_concat data) (\<lambda>full_data.
           bind_err (select_columns (ML_features cfg) full_data) (\<lambda>X.
             Inr (X, map r_target full_data)))) of
        Inl err \<Rightarrow> (Some err, e)
      | Inr (X, y) \<Rightarrow>
          (case model_class w of
             Inl err \<Rightarrow> (Some err, e)
           | Inr clf \<Rightarrow>
               (case fit w clf X y of
                  Inl err \<Rightarrow> (Some err, e\<lparr> ml_model := Some clf \<rparr>)
                | Inr fitted \<Rightarrow>
                    (case score w fitted X y of
                       Inl err \<Rightarrow>
                         (Some err, e\<lparr> ml_model := Some fitted, last_trained := Some (clock w) \<rparr>)
                     | Inr accuracy \<Rightarrow>
                         (None, e\<lparr> ml_model := Some fitted, last_trained := Some (clock w) \<rparr>)))))"

text \<open>
  A coroutine object holds the outcome that awaiting it would produce. It cannot be
  subscripted: \<open>c[:n]\<close> raises TypeError.
\<close>

datatype 'a coroutine = Coroutine "error + 'a"

fun py_await :: "'a coroutine \<Rightarrow> error + 'a" where
  "py_await (Coroutine r) = r"

definition coroutine_slice :: "'a list coroutine \<Rightarrow> nat \<Rightarrow> error + 'a list coroutine" where
  "coroutine_slice c n = Inl TypeError"

text \<open>
  \<open>train_model\<close>. Line 128 reads \<open>await self.market.get_instruments()[:5]\<close>: the subscript
  binds tighter than \<open>await\<close>, so the slice is applied to the coroutine object that the
  call returns, and the result of the slice would then be awaited.
\<close>

definition train_model :: "config \<Rightarrow> world \<Rightarrow> engine \<Rightarrow> error option \<times> engine" where
  "train_model cfg w e =
     (case bind_err (coroutine_slice (Coroutine (get_instruments w)) 5) py_await of
        Inl err \<Rightarrow> (Some err, e)
      | Inr instruments \<Rightarrow> train_on cfg w instruments e)"

section \<open>Sample inputs\<close>

definition two_subscriptions :: market_data_service where
  "two_subscriptions =
     market_init\<lparr> subscriptions := Dlist.insert ''A'' (Dlist.insert ''B'' Dlist.empty) \<rparr>"

definition many_figis :: "nat \<Rightarrow> string list" where
  "many_figis n = map (\<lambda>k. replicate (Suc k) CHR ''F'') [0..<n]"

definition sample_config :: "int \<Rightarrow> config" where
  "sample_config n =
     Config\<lparr> STRATEGY_PARAMS := Some (map_of [(''short_term'',
                \<lparr> p_days = 1, p_interval = CANDLE_INTERVAL_5_MIN, p_min_candles = n,
                  p_ema = 9, p_rsi = 14, p_atr = 14 \<rparr>)]),
             RISK_MANAGEMENT := map_of [(''stop_loss_multiplier'', 2),
                                        (''take_profit_multiplier'', 3)] \<rparr>"

definition sample_candle :: "int \<Rightarrow> historic_candle" where
  "sample_candle p =
     \<lparr> c_open = \<lparr> units = p, nano = 0 \<rparr>, c_high = \<lparr> units = p + 1, nano = 0 \<rparr>,
       c_low = \<lparr> units = p - 1, nano = 0 \<rparr>, c_close = \<lparr> units = p, nano = 500000000 \<rparr>,
       c_volume = 1000 \<rparr>"

definition unfitted :: classifier where
  "unfitted = \<lparr> clf_predict = (\<lambda>v. Inl (AttributeError ''estimators_'')),
               clf_predict_proba = (\<lambda>v. Inl (AttributeError ''estimators_'')) \<rparr>"

definition always_up :: classifier where
  "always_up = \<lparr> clf_predict = (\<lambda>v. Inr 1), clf_predict_proba = (\<lambda>v. Inr (3 / 4)) \<rparr>"

definition sample_world :: world where
  "sample_world =
     \<lparr> shares = Inr [\<lparr> sh_figi = ''BBG004730N88'', sh_ticker = ''SBER'', sh_name = ''Sberbank'' \<rparr>,
                     \<lparr> sh_figi = ''BBG004731032'', sh_ticker = ''lkoh'', sh_name = ''Lukoil'' \<rparr>],
       get_candles = (\<lambda>figi days interval.
          Inr [sample_candle 100, sample_candle 101, sample_candle 102]),
       ta_ema = (\<lambda>xs n. Inr (Some [NaN, NaN, Num 101])),
       ta_rsi = (\<lambda>xs n. Inr (Some [NaN, NaN, Num 60])),
       ta_atr = (\<lambda>hs ls cs n. Inr (Some [NaN, NaN, Num 2])),
       model_class = Inr unfitted,
       fit = (\<lambda>clf X y. Inr always_up),
       score = (\<lambda>clf X y. Inr 1),
       clock = 1000 \<rparr>"

definition six_shares :: "share list" where
  "six_shares = map (\<lambda>t. \<lparr> sh_figi = ''BBG'' @ t, sh_ticker = t, sh_name = t \<rparr>)
                  [''F'', ''E'', ''D'', ''C'', ''B'', ''A'']"

section \<open>Order-book updates\<close>

lemma process_orderbook_wellformed:
  "process_orderbook now \<lparr> pl_figi = Some f, pl_bids = Some bs, pl_asks = Some as \<rparr> m =
     Inr (m\<lparr> orderbooks := (orderbooks m)(f \<mapsto>
            \<lparr> sn_bids = map level_pair bs, sn_asks = map level_pair as, sn_timestamp = now \<rparr>) \<rparr>)"
  by (simp add: process_orderbook_def bind_err_def dict_key_def)



section \<open>The streaming loop and the subscription set\<close>

lemma subscriptions_process_orderbook:
  "process_orderbook now d m = Inr m' \<Longrightarrow> subscriptions m' = subscriptions m \<and> ws m' = ws m"
  by (auto simp add: process_orderbook_def bind_err_def split: sum.splits)

lemma stream_handler_keeps:
  "subscriptions (snd (stream_handler fs c m)) = subscriptions m
     \<and> ws (snd (stream_handler fs c m)) = ws m"
proof (induction fs c m rule: stream_handler.induct)
  case (2 d now fs c m)
  then show ?case
    by (cases "process_orderbook now d m") (auto dest: subscriptions_process_orderbook)
qed simp_all

lemma subscriptions_resubscribe:
  "subscriptions (snd (resubscribe cfg m)) = subscriptions m"
  by (simp add: resubscribe_def split: list.splits option.splits prod.splits)

lemma subscriptions_close_ws: "subscriptions (close_ws m) = subscriptions m"
  by (simp add: close_ws_def)

lemma subscriptions_streaming_iteration:
  "subscriptions (snd (streaming_iteration cfg a m)) = subscriptions m"
proof (cases a)
  case (Refused e)
  then show ?thesis by simp
next
  case (Connected w fs c)
  obtain r m1 where r: "resubscribe cfg (m\<lparr>ws := Some w\<rparr>) = (r, m1)"
    by (cases "resubscribe cfg (m\<lparr>ws := Some w\<rparr>)")
  then have m1: "subscriptions m1 = subscriptions m"
    using subscriptions_resubscribe [of cfg "m\<lparr>ws := Some w\<rparr>"] by simp
  show ?thesis
    using Connected r m1 stream_handler_keeps [of fs c m1]
    by (cases r) (auto simp add: subscriptions_close_ws split: prod.splits)
qed

lemma subscriptions_start_streaming:
  "subscriptions (start_streaming cfg as m) = subscriptions m"
  by (induction as arbitrary: m) (simp_all add: subscriptions_streaming_iteration)

lemma start_streaming_append:
  "start_streaming cfg (as @ bs) m = start_streaming cfg bs (start_streaming cfg as m)"
  by (induction as arbitrary: m) simp_all

lemma send_each_within_budget:
  "length fs \<le> ws_budget w \<Longrightarrow>
   send_each cfg fs w =
     (None, w\<lparr> ws_sent := ws_sent w @ map (subscribe_message cfg) fs,
               ws_budget := ws_budget w - length fs \<rparr>)"
  by (induction fs arbitrary: w) (simp_all add: ws_send_def)

lemma resubscribe_within_budget:
  "length (list_of_dlist (subscriptions m)) \<le> ws_budget w \<Longrightarrow>
   resubscribe cfg (m\<lparr> ws := Some w \<rparr>) =
     (None, m\<lparr> ws := Some (w\<lparr> ws_sent := ws_sent w
                                  @ map (subscribe_message cfg) (list_of_dlist (subscriptions m)),
                               ws_budget := ws_budget w - length (list_of_dlist (subscriptions m)) \<rparr>) \<rparr>)"
  using send_each_within_budget [of "list_of_dlist (subscriptions m)" w cfg]
  by (cases "list_of_dlist (subscriptions m)") (simp_all add: resubscribe_def)

lemma inj_subscribe_message: "inj (subscribe_message cfg)"
  by (rule injI) (simp add: subscribe_message_def)

lemma connected_iteration_sent:
  assumes "length (list_of_dlist (subscriptions m)) \<le> ws_budget w"
  shows "\<exists>w'. ws (snd (streaming_iteration cfg (Connected w fs c) m)) = Some w'
           \<and> ws_sent w' = ws_sent w @ map (subscribe_message cfg) (list_of_dlist (subscriptions m))"
proof -
  let ?m1 = "m\<lparr> ws := Some (w\<lparr> ws_sent := ws_sent w
                                  @ map (subscribe_message cfg) (list_of_dlist (subscriptions m)),
                               ws_budget := ws_budget w - length (list_of_dlist (subscriptions m)) \<rparr>) \<rparr>"
  have "ws (snd (stream_handler fs c ?m1)) = ws ?m1"
    using stream_handler_keeps [of fs c ?m1] by blast
  then show ?thesis
    using resubscribe_within_budget [OF assms, of cfg]
    by (auto simp add: close_ws_def ws_close_def split: prod.splits)
qed

text \<open>
  Claim C6. After any number of consecutive refused connections the subscription set is
  what it was, and on the next connection that carries the resubscription (a fresh
  connection whose link holds for at least one send per subscription) exactly one
  subscribe message per subscribed instrument is sent: the messages are pairwise
  distinct, as many as the subscriptions, and their identifiers are exactly the
  subscribed ones.
\<close>

theorem resubscription_after_failures:
  assumes "\<forall>a \<in> set fails. \<exists>e. a = Refused e"
    and "ws_sent w = []"
    and "length (list_of_dlist (subscriptions m)) \<le> ws_budget w"
  shows "subscriptions (start_streaming cfg fails m) = subscriptions m
     \<and> (\<exists>w'. ws (start_streaming cfg (fails @ [Connected w fs c]) m) = Some w'
          \<and> ws_sent w' = map (subscribe_message cfg) (list_of_dlist (subscriptions m))
          \<and> distinct (ws_sent w')
          \<and> length (ws_sent w') = length (list_of_dlist (subscriptions m))
          \<and> msg_figi ` set (ws_sent w') = set (list_of_dlist (subscriptions m)))"
proof -
  let ?m = "start_streaming cfg fails m"
  have s: "subscriptions ?m = subscriptions m"
    by (rule subscriptions_start_streaming)
  from assms(3) s have "length (list_of_dlist (subscriptions ?m)) \<le> ws_budget w" by simp
  from connected_iteration_sent [OF this, of cfg fs c] obtain w' where
    w': "ws (snd (streaming_iteration cfg (Connected w fs c) ?m)) = Some w'"
        "ws_sent w' = map (subscribe_message cfg) (list_of_dlist (subscriptions m))"
    using assms(2) s by auto
  have d: "distinct (ws_sent w')"
    using w'(2) inj_subscribe_message [of cfg]
    by (simp add: distinct_map inj_on_def inj_def)
  have i: "msg_figi ` set (ws_sent w') = set (list_of_dlist (subscriptions m))"
    using w'(2) by (force simp add: subscribe_message_def image_iff)
  show ?thesis
    using s w' d i by (simp add: start_streaming_append)
qed

theorem resubscription_after_failures_witness:
  "subscriptions (start_streaming Config [Refused ConnectionClosed, Refused (Upstream ''handshake'')]
         two_subscriptions) = subscriptions two_subscriptions
   \<and> (\<exists>w'. ws (start_streaming Config
                ([Refused ConnectionClosed, Refused (Upstream ''handshake'')]
                   @ [Connected \<lparr> ws_sent = [], ws_budget = 2 \<rparr> [Other_event] None])
                two_subscriptions) = Some w'
          \<and> ws_sent w' = [subscribe_message Config ''A'', subscribe_message Config ''B''])"
proof -
  have refused: "\<forall>a \<in> set [Refused ConnectionClosed, Refused (Upstream ''handshake'')].
                   \<exists>e. a = Refused e"
    by simp
  have fresh: "ws_sent \<lparr> ws_sent = [], ws_budget = 2 \<rparr> = []"
    by simp
  have holds: "length (list_of_dlist (subscriptions two_subscriptions))
                 \<le> ws_budget \<lparr> ws_sent = [], ws_budget = 2 \<rparr>"
    by (simp add: two_subscriptions_def market_init_def)
  from resubscription_after_failures [OF refused fresh holds, of Config "[Other_event]" None]
  show ?thesis
    by (auto simp add: two_subscriptions_def market_init_def)
qed

lemma member_subscribe:
  "set (list_of_dlist (subscriptions (snd (subscribe cfg f m)))) =
     insert f (set (list_of_dlist (subscriptions m)))"
  by (auto simp add: subscribe_def Dlist.member_def Let_def split: option.splits sum.splits)

lemma length_subscribe:
  "length (list_of_dlist (subscriptions (snd (subscribe cfg f m)))) =
     (if f \<in> set (list_of_dlist (subscriptions m)) then length (list_of_dlist (subscriptions m))
      else Suc (length (list_of_dlist (subscriptions m))))"
  by (auto simp add: subscribe_def Dlist.member_def Let_def split: option.splits sum.splits)

lemma set_subscribe_all:
  "set (list_of_dlist (subscriptions (subscribe_all cfg fs m))) =
     set (list_of_dlist (subscriptions m)) \<union> set fs"
  by (induction fs arbitrary: m) (auto simp add: member_subscribe)

lemma length_subscribe_all_fresh:
  "distinct fs \<Longrightarrow> set fs \<inter> set (list_of_dlist (subscriptions m)) = {} \<Longrightarrow>
   length (list_of_dlist (subscriptions (subscribe_all cfg fs m))) =
     length (list_of_dlist (subscriptions m)) + length fs"
  by (induction fs arbitrary: m) (auto simp add: member_subscribe length_subscribe)

lemma length_subscribe_all_le:
  "length (list_of_dlist (subscriptions (subscribe_all cfg fs m))) \<le>
     length (list_of_dlist (subscriptions m)) + length fs"
proof (induction fs arbitrary: m)
  case (Cons f fs)
  show ?case using Cons [of "snd (subscribe cfg f m)"] length_subscribe [of cfg f m]
    by (simp split: if_splits)
qed simp

lemma distinct_many_figis: "distinct (many_figis n)"
  unfolding many_figis_def
  by (simp add: distinct_map inj_on_def)

text \<open>
  Claim C7, as stated, fails: \<open>subscribe\<close> never reads \<open>max_subscriptions\<close>. Subscribing
  51 different identifiers to a fresh service under the shipped configuration (maximum 50)
  gives a subscription set of 51 elements.
\<close>

theorem subscriptions_exceed_maximum:
  "\<not> int (length (list_of_dlist (subscriptions (subscribe_all Config (many_figis 51) market_init))))
       \<le> STREAMING_max_subscriptions Config"
proof -
  have "length (list_of_dlist (subscriptions (subscribe_all Config (many_figis 51) market_init))) =
          length (list_of_dlist (subscriptions market_init)) + length (many_figis 51)"
    by (rule length_subscribe_all_fresh) (simp_all add: distinct_many_figis market_init_def)
  then show ?thesis
    by (simp add: market_init_def many_figis_def Config_def)
qed

text \<open>
  Claim C7, amended. After a sequence of subscribe calls the subscription set is the
  previous set together with the identifiers subscribed; its size is at most the previous
  size plus the number of calls, and exactly that for new, pairwise different
  identifiers, so no configured maximum bounds it. Resubscription, the streaming loop and
  order-book processing leave the subscription set unchanged.
\<close>

theorem subscriptions_grow_unbounded:
  "set (list_of_dlist (subscriptions (subscribe_all cfg fs m))) =
       set (list_of_dlist (subscriptions m)) \<union> set fs
   \<and> length (list_of_dlist (subscriptions (subscribe_all cfg fs m))) \<le>
       length (list_of_dlist (subscriptions m)) + length fs
   \<and> (distinct fs \<and> set fs \<inter> set (list_of_dlist (subscriptions m)) = {} \<longrightarrow>
        length (list_of_dlist (subscriptions (subscribe_all cfg fs m))) =
          length (list_of_dlist (subscriptions m)) + length fs)
   \<and> subscriptions (snd (resubscribe cfg m)) = subscriptions m
   \<and> subscriptions (start_streaming cfg as m) = subscriptions m
   \<and> (\<forall>m'. process_orderbook now d m = Inr m' \<longrightarrow> subscriptions m' = subscriptions m)"
  using set_subscribe_all [of cfg fs m] length_subscribe_all_le [of cfg fs m]
    length_subscribe_all_fresh [of fs m cfg] subscriptions_resubscribe [of cfg m]
    subscriptions_start_streaming [of cfg as m] subscriptions_process_orderbook [of now d m]
  by blast

theorem subscriptions_grow_unbounded_witness:
  "length (list_of_dlist (subscriptions (subscribe_all Config [''A'', ''B'', ''A''] market_init))) = 2
   \<and> distinct [''C'', ''D''] \<and> set [''C'', ''D''] \<inter> set (list_of_dlist (subscriptions two_subscriptions)) = {}
   \<and> length (list_of_dlist (subscriptions (subscribe_all Config [''C'', ''D''] two_subscriptions))) = 4
   \<and> (\<exists>m'. process_orderbook 1 \<lparr> pl_figi = Some ''A'', pl_bids = Some [], pl_asks = Some [] \<rparr>
              two_subscriptions = Inr m' \<and> subscriptions m' = subscriptions two_subscriptions)"
  using subscriptions_grow_unbounded [of Config "[''C'', ''D'']" two_subscriptions "[]" 1
      "\<lparr> pl_figi = Some ''A'', pl_bids = Some [], pl_asks = Some [] \<rparr>"]
  by (simp add: two_subscriptions_def market_init_def process_orderbook_wellformed
      subscribe_def Dlist.member_def)

section \<open>Sequencing of fallible steps and sample evaluations\<close>

lemma bind_err_Inr: "bind_err r f = Inr v \<longleftrightarrow> (\<exists>x. r = Inr x \<and> f x = Inr v)"
  by (cases r) (simp_all add: bind_err_def)

lemma bind_err_Inr_simp [simp]: "bind_err (Inr x) f = f x"
  by (simp add: bind_err_def)

lemma bind_err_Inl_simp [simp]: "bind_err (Inl e) f = Inl e"
  by (simp add: bind_err_def)

lemma upper_sber: "upper ''sber'' = ''SBER''" by (simp add: upper_def upper_char_def)

lemma sample_instruments:
  "get_instruments sample_world =
     Inr [instrument_dict \<lparr> sh_figi = ''BBG004730N88'', sh_ticker = ''SBER'', sh_name = ''Sberbank'' \<rparr>,
          instrument_dict \<lparr> sh_figi = ''BBG004731032'', sh_ticker = ''lkoh'', sh_name = ''Lukoil'' \<rparr>]"
  by (simp add: get_instruments_def sample_world_def)

lemma sample_resolve:
  "resolve [instrument_dict \<lparr> sh_figi = ''BBG004730N88'', sh_ticker = ''SBER'', sh_name = ''Sberbank'' \<rparr>,
          instrument_dict \<lparr> sh_figi = ''BBG004731032'', sh_ticker = ''lkoh'', sh_name = ''Lukoil'' \<rparr>] ''sber''
   = Inr (instrument_dict \<lparr> sh_figi = ''BBG004730N88'', sh_ticker = ''SBER'', sh_name = ''Sberbank'' \<rparr>)"
  by (simp add: instrument_dict_def dict_item_def dict_key_def upper_def upper_char_def)

lemma sample_profile:
  "lookup_profile (sample_config n) ''short_term'' =
     Inr \<lparr> p_days = 1, p_interval = CANDLE_INTERVAL_5_MIN, p_min_candles = n,
           p_ema = 9, p_rsi = 14, p_atr = 14 \<rparr>"
  by (simp add: lookup_profile_def sample_config_def dict_key_def)

lemma sample_figi:
  "dict_item (instrument_dict \<lparr> sh_figi = ''BBG004730N88'', sh_ticker = ''SBER'', sh_name = ''Sberbank'' \<rparr>) ''figi''
     = Inr ''BBG004730N88''"
  by (simp add: instrument_dict_def dict_item_def dict_key_def)

lemma sample_candles:
  "get_historical_candles sample_world figi days interval =
     Inr [sample_candle 100, sample_candle 101, sample_candle 102]"
  by (simp add: get_historical_candles_def sample_world_def)

lemma sample_technical_analysis:
  "technical_analysis (sample_config n) sample_world
       [sample_candle 100, sample_candle 101, sample_candle 102]
       \<lparr> p_days = 1, p_interval = CANDLE_INTERVAL_5_MIN, p_min_candles = n,
         p_ema = 9, p_rsi = 14, p_atr = 14 \<rparr>
     = Inr \<lparr> a_ema = Num 101, a_rsi = Num 60, a_atr = Num 2, a_decision = Derzhat,
             a_stop_loss = Num (197 / 2), a_take_profit = Num (217 / 2),
             a_ml_confidence = None \<rparr>"
  by (simp add: technical_analysis_def sample_world_def sample_config_def Config_def
      iloc_last_def list_last_def closes_of_def dict_key_def sample_candle_def
      convert_quotation_def)

lemma sample_analyze:
  "analyze (sample_config 2) sample_world (engine_init\<lparr> ml_model := Some always_up \<rparr>)
       ''sber'' ''short_term''
     = Inr \<lparr> res_ticker = ''SBER'', res_decision = Pokupat, res_confidence = Num 75,
             res_price = 205 / 2, res_stop_loss = Num (197 / 2),
             res_take_profit = Num (217 / 2), res_timestamp = 1000 \<rparr>"
proof -
  have f: "ML_features (sample_config 2) = [''ema'', ''rsi'', ''atr'', ''volume'']"
    by (simp add: sample_config_def Config_def)
  have c: "clock sample_world = 1000"
    by (simp add: sample_world_def)
  have t: "ml_analysis (sample_config 2) (engine_init\<lparr> ml_model := Some always_up \<rparr>)
       [sample_candle 100, sample_candle 101, sample_candle 102]
       \<lparr> a_ema = Num 101, a_rsi = Num 60, a_atr = Num 2, a_decision = Derzhat,
             a_stop_loss = Num (197 / 2), a_take_profit = Num (217 / 2),
             a_ml_confidence = None \<rparr>
     = Inr \<lparr> a_ema = Num 101, a_rsi = Num 60, a_atr = Num 2, a_decision = Pokupat,
             a_stop_loss = Num (197 / 2), a_take_profit = Num (217 / 2),
             a_ml_confidence = Some (Num 75) \<rparr>"
    by (simp add: ml_analysis_def list_last_def always_up_def f dict_key_def)
  have l: "list_last [sample_candle 100, sample_candle 101, sample_candle 102]
             = Inr (sample_candle 102)"
    by (simp add: list_last_def)
  have p: "convert_quotation (c_close (sample_candle 102)) = 205 / 2"
    by (simp add: sample_candle_def convert_quotation_def)
  show ?thesis
    by (simp add: analyze_def sample_instruments sample_resolve sample_profile sample_figi
        sample_candles sample_technical_analysis t l p c upper_sber del: resolve.simps)
qed

section \<open>Training\<close>

text \<open>
  Line 128 slices the coroutine object before it is awaited, so every run of
  \<open>train_model\<close> ends in the \<open>except\<close> clause with a TypeError before any instrument
  is fetched, and the engine is left as it was.
\<close>

lemma train_model_raises: "train_model cfg w e = (Some TypeError, e)"
  by (simp add: train_model_def coroutine_slice_def)

text \<open>
  Claim C1. Whenever a run of \<open>train_model\<close> fails, the active model \<open>ml_model\<close> and
  \<open>last_trained\<close> after the run are what they were before it: the previous snapshot
  stays active and no unfitted model becomes active.
\<close>

theorem train_failure_keeps_model:
  "fst (train_model cfg w e) \<noteq> None \<Longrightarrow>
     ml_model (snd (train_model cfg w e)) = ml_model e
     \<and> last_trained (snd (train_model cfg w e)) = last_trained e"
  by (simp add: train_model_raises)

theorem train_failure_keeps_model_witness:
  "fst (train_model Config sample_world
          (engine_init\<lparr> ml_model := Some always_up, last_trained := Some 5 \<rparr>)) \<noteq> None
   \<and> ml_model (snd (train_model Config sample_world
          (engine_init\<lparr> ml_model := Some always_up, last_trained := Some 5 \<rparr>))) = Some always_up
   \<and> last_trained (snd (train_model Config sample_world
          (engine_init\<lparr> ml_model := Some always_up, last_trained := Some 5 \<rparr>))) = Some 5"
proof -
  have f: "fst (train_model Config sample_world
          (engine_init\<lparr> ml_model := Some always_up, last_trained := Some 5 \<rparr>)) \<noteq> None"
    by (simp add: train_model_def coroutine_slice_def)
  from train_failure_keeps_model [OF f] f show ?thesis by simp
qed

text \<open>
  The rest of the body, were it reached with an instrument list, stores the new
  classifier before fitting it: a failing fit would leave the unfitted classifier in
  \<open>ml_model\<close>, with \<open>last_trained\<close> unchanged. No run of \<open>train_model\<close> gets there.
\<close>

lemma train_on_fit_failure:
  assumes "collect_training_data cfg w instruments = Inr data"
    and "pd_concat data = Inr full_data"
    and "select_columns (ML_features cfg) full_data = Inr X"
    and "model_class w = Inr clf"
    and "fit w clf X (map r_target full_data) = Inl err"
  shows "train_on cfg w instruments e = (Some err, e\<lparr> ml_model := Some clf \<rparr>)"
  using assms by (simp add: train_on_def)

section \<open>Analysis\<close>

text \<open>
  Claim C2. If the instrument is resolved, the strategy profile of the mode is found and
  the historical client returns fewer candles than the profile's minimum, then \<open>analyze\<close>
  fails with the ValueError "not enough data" and returns no analysis result.
\<close>

theorem insufficient_candles:
  assumes "get_instruments w = Inr instruments"
    and "resolve instruments ticker = Inr instrument"
    and "lookup_profile cfg mode = Inr params"
    and "dict_item instrument ''figi'' = Inr figi"
    and "get_historical_candles w figi (p_days params) (p_interval params) = Inr candles"
    and "int (length candles) < p_min_candles params"
  shows "analyze cfg w e ticker mode = Inl (ValueError Nedostatochno_dannyh)
         \<and> (\<forall>r. analyze cfg w e ticker mode \<noteq> Inr r)"
  using assms by (simp add: analyze_def)

theorem insufficient_candles_witness:
  "int (length [sample_candle 100, sample_candle 101, sample_candle 102]) < 72
   \<and> analyze (sample_config 72) sample_world engine_init ''sber'' ''short_term''
       = Inl (ValueError Nedostatochno_dannyh)"
  using insufficient_candles [OF sample_instruments sample_resolve sample_profile [of 72]
      sample_figi sample_candles, of engine_init]
  by simp







lemma technical_analysis_Inr:
  assumes "technical_analysis cfg w candles params = Inr a"
  shows "a_decision a = Derzhat \<and> a_ml_confidence a = None \<and> candles \<noteq> []
     \<and> (\<exists>atr sl tp.
          bind_err (ta_atr w (highs_of candles) (lows_of candles) (closes_of candles) (p_atr params))
            iloc_last = Inr atr
        \<and> RISK_MANAGEMENT cfg ''stop_loss_multiplier'' = Some sl
        \<and> RISK_MANAGEMENT cfg ''take_profit_multiplier'' = Some tp
        \<and> a_atr a = atr
        \<and> a_stop_loss a = fsub (Num (convert_quotation (c_close (last candles)))) (fmul atr (Num sl))
        \<and> a_take_profit a = fadd (Num (convert_quotation (c_close (last candles)))) (fmul atr (Num tp)))"
proof -
  from assms obtain ema rsi atr last_price sl tp where
    atr: "bind_err (ta_atr w (highs_of candles) (lows_of candles) (closes_of candles) (p_atr params))
            iloc_last = Inr atr"
    and lp: "list_last (closes_of candles) = Inr last_price"
    and sl: "dict_key ''stop_loss_multiplier'' (RISK_MANAGEMENT cfg ''stop_loss_multiplier'') = Inr sl"
    and tp: "dict_key ''take_profit_multiplier'' (RISK_MANAGEMENT cfg ''take_profit_multiplier'') = Inr tp"
    and a: "a = \<lparr> a_ema = ema, a_rsi = rsi, a_atr = atr, a_decision = Derzhat,
              a_stop_loss = fsub (Num last_price) (fmul atr (Num sl)),
              a_take_profit = fadd (Num last_price) (fmul atr (Num tp)),
              a_ml_confidence = None \<rparr>"
    unfolding technical_analysis_def Let_def bind_err_Inr by auto
  from lp have ne: "candles \<noteq> []" and lpv: "last_price = convert_quotation (c_close (last candles))"
    by (auto simp add: list_last_def closes_of_def last_map split: if_splits)
  from sl tp have "RISK_MANAGEMENT cfg ''stop_loss_multiplier'' = Some sl"
    "RISK_MANAGEMENT cfg ''take_profit_multiplier'' = Some tp"
    by (auto simp add: dict_key_def split: option.splits)
  with atr a ne lpv show ?thesis by simp
qed

lemma ml_analysis_keeps:
  assumes "ml_analysis cfg e candles a = Inr a'"
  shows "a_stop_loss a' = a_stop_loss a \<and> a_take_profit a' = a_take_profit a \<and> a_atr a' = a_atr a"
proof (cases "ml_model e")
  case None
  with assms show ?thesis by (simp add: ml_analysis_def)
next
  case (Some clf)
  with assms show ?thesis
    unfolding ml_analysis_def Let_def by (auto simp add: bind_err_Inr)
qed

text \<open>
  Claim C4. While no model is active, an \<open>analyze\<close> call whose resolution, profile
  lookup, candle fetch and indicator computation succeed returns a result with decision
  hold and confidence 0; the absence of a model does not make the request fail.
\<close>

theorem analyze_without_model:
  assumes "ml_model e = None"
    and "get_instruments w = Inr instruments"
    and "resolve instruments ticker = Inr instrument"
    and "lookup_profile cfg mode = Inr params"
    and "dict_item instrument ''figi'' = Inr figi"
    and "get_historical_candles w figi (p_days params) (p_interval params) = Inr candles"
    and "\<not> int (length candles) < p_min_candles params"
    and "technical_analysis cfg w candles params = Inr a"
  shows "\<exists>r. analyze cfg w e ticker mode = Inr r \<and> res_decision r = Derzhat
            \<and> res_confidence r = Num 0"
proof -
  from technical_analysis_Inr [OF assms(8)]
  have "a_decision a = Derzhat" "a_ml_confidence a = None" "candles \<noteq> []" by simp_all
  then show ?thesis
    using assms by (simp add: analyze_def ml_analysis_def list_last_def)
qed

theorem analyze_without_model_witness:
  "ml_model engine_init = None
   \<and> \<not> int (length [sample_candle 100, sample_candle 101, sample_candle 102]) < 2
   \<and> (\<exists>r. analyze (sample_config 2) sample_world engine_init ''sber'' ''short_term'' = Inr r
         \<and> res_decision r = Derzhat \<and> res_confidence r = Num 0)"
proof -
  have m: "ml_model engine_init = None" by (simp add: engine_init_def)
  have l: "\<not> int (length [sample_candle 100, sample_candle 101, sample_candle 102])
             < p_min_candles \<lparr> p_days = 1, p_interval = CANDLE_INTERVAL_5_MIN, p_min_candles = 2,
         p_ema = 9, p_rsi = 14, p_atr = 14 \<rparr>" by simp
  from analyze_without_model [OF m sample_instruments sample_resolve sample_profile [of 2]
      sample_figi sample_candles l sample_technical_analysis [of 2]]
  show ?thesis using m by simp
qed

text \<open>
  Claim C5. In every result that \<open>analyze\<close> returns, the stop loss is the last candle's
  close minus the computed ATR times the configured stop-loss multiplier, and the take
  profit is the last close plus the ATR times the configured take-profit multiplier; both
  multipliers are read from the risk-management configuration.
\<close>

theorem analyze_risk_levels:
  assumes "analyze cfg w e ticker mode = Inr r"
  shows "\<exists>instruments instrument params figi candles atr sl tp.
      get_instruments w = Inr instruments
    \<and> resolve instruments ticker = Inr instrument
    \<and> lookup_profile cfg mode = Inr params
    \<and> dict_item instrument ''figi'' = Inr figi
    \<and> get_historical_candles w figi (p_days params) (p_interval params) = Inr candles
    \<and> candles \<noteq> []
    \<and> bind_err (ta_atr w (highs_of candles) (lows_of candles) (closes_of candles) (p_atr params))
         iloc_last = Inr atr
    \<and> RISK_MANAGEMENT cfg ''stop_loss_multiplier'' = Some sl
    \<and> RISK_MANAGEMENT cfg ''take_profit_multiplier'' = Some tp
    \<and> res_price r = convert_quotation (c_close (last candles))
    \<and> res_stop_loss r = fsub (Num (convert_quotation (c_close (last candles)))) (fmul atr (Num sl))
    \<and> res_take_profit r = fadd (Num (convert_quotation (c_close (last candles)))) (fmul atr (Num tp))"
proof -
  from assms obtain instruments instrument params figi candles where
    s: "get_instruments w = Inr instruments" "resolve instruments ticker = Inr instrument"
       "lookup_profile cfg mode = Inr params" "dict_item instrument ''figi'' = Inr figi"
       "get_historical_candles w figi (p_days params) (p_interval params) = Inr candles"
    and rest: "(if int (length candles) < p_min_candles params
       then Inl (ValueError Nedostatochno_dannyh)
       else
         bind_err (technical_analysis cfg w candles params) (\<lambda>a.
         bind_err (ml_analysis cfg e candles a) (\<lambda>a'.
         bind_err (list_last candles) (\<lambda>c.
           Inr \<lparr> res_ticker = upper ticker,
                 res_decision = a_decision a',
                 res_confidence = (case a_ml_confidence a' of None \<Rightarrow> Num 0 | Some x \<Rightarrow> x),
                 res_price = convert_quotation (c_close c),
                 res_stop_loss = a_stop_loss a',
                 res_take_profit = a_take_profit a',
                 res_timestamp = clock w \<rparr>)))) = Inr r"
    unfolding analyze_def bind_err_Inr by blast
  from rest obtain a a' c where
    ta: "technical_analysis cfg w candles params = Inr a"
    and ml: "ml_analysis cfg e candles a = Inr a'"
    and c: "list_last candles = Inr c"
    and r: "r = \<lparr> res_ticker = upper ticker,
                 res_decision = a_decision a',
                 res_confidence = (case a_ml_confidence a' of None \<Rightarrow> Num 0 | Some x \<Rightarrow> x),
                 res_price = convert_quotation (c_close c),
                 res_stop_loss = a_stop_loss a',
                 res_take_profit = a_take_profit a',
                 res_timestamp = clock w \<rparr>"
    by (auto simp add: bind_err_Inr split: if_splits)
  from c have cl: "c = last candles" by (auto simp add: list_last_def split: if_splits)
  from technical_analysis_Inr [OF ta] obtain atr sl tp where
    t: "candles \<noteq> []"
       "bind_err (ta_atr w (highs_of candles) (lows_of candles) (closes_of candles) (p_atr params))
            iloc_last = Inr atr"
       "RISK_MANAGEMENT cfg ''stop_loss_multiplier'' = Some sl"
       "RISK_MANAGEMENT cfg ''take_profit_multiplier'' = Some tp"
       "a_stop_loss a = fsub (Num (convert_quotation (c_close (last candles)))) (fmul atr (Num sl))"
       "a_take_profit a = fadd (Num (convert_quotation (c_close (last candles)))) (fmul atr (Num tp))"
    by blast
  from ml_analysis_keeps [OF ml] t(5,6) r cl
  have "res_price r = convert_quotation (c_close (last candles))"
    "res_stop_loss r = fsub (Num (convert_quotation (c_close (last candles)))) (fmul atr (Num sl))"
    "res_take_profit r = fadd (Num (convert_quotation (c_close (last candles)))) (fmul atr (Num tp))"
    by simp_all
  with s t(1-4) show ?thesis by blast
qed

theorem analyze_risk_levels_witness:
  "\<exists>r. analyze (sample_config 2) sample_world (engine_init\<lparr> ml_model := Some always_up \<rparr>)
         ''sber'' ''short_term'' = Inr r
     \<and> res_stop_loss r = fsub (Num (205 / 2)) (fmul (Num 2) (Num 2))
     \<and> res_take_profit r = fadd (Num (205 / 2)) (fmul (Num 2) (Num 3))"
  using analyze_risk_levels [OF sample_analyze] sample_analyze by simp

text \<open>
  With the configuration that config.py declares, reading \<open>Config.STRATEGY_PARAMS\<close> raises,
  so \<open>analyze\<close> returns an error for every request.
\<close>

lemma analyze_shipped_config_fails: "analyze Config w e ticker mode \<noteq> Inr r"
  by (simp add: analyze_def bind_err_Inr lookup_profile_def Config_def)



section \<open>Top instruments\<close>

lemma sorted_reverse_equal_keys:
  "\<forall>x \<in> set xs. key x = PyInt 0 \<Longrightarrow> sorted_reverse key xs = Inr xs"
proof (induction xs)
  case (Cons x xs)
  then show ?case by (cases xs) simp_all
qed simp

lemma volume_key_listing: "volume_key (instrument_dict s) = PyInt 0"
  by (simp add: volume_key_def instrument_dict_def)

text \<open>
  Claim C10. No instrument dictionary built by \<open>get_instruments\<close> has a \<open>volume\<close> key,
  every sort key is the default 0, and the stable descending sort leaves the order as it
  is: \<open>get_top_instruments\<close> returns the first five instruments of the listing in listing
  order, whatever their traded volume.
\<close>

theorem top_instruments_listing_order:
  assumes "shares w = Inr items"
  shows "get_top_instruments w = Inr (take 5 (map instrument_dict items))
     \<and> (\<forall>x \<in> set (map instrument_dict items). map_of x ''volume'' = None \<and> volume_key x = PyInt 0)"
proof -
  have k: "\<forall>x \<in> set (map instrument_dict items). volume_key x = PyInt 0"
    by (simp add: volume_key_listing)
  have n: "\<forall>x \<in> set (map instrument_dict items). map_of x ''volume'' = None"
    by (simp add: instrument_dict_def)
  from sorted_reverse_equal_keys [OF k] assms n k show ?thesis
    by (simp add: get_top_instruments_def get_instruments_def)
qed

theorem top_instruments_listing_order_witness:
  "shares (sample_world\<lparr> shares := Inr six_shares \<rparr>) = Inr six_shares
   \<and> get_top_instruments (sample_world\<lparr> shares := Inr six_shares \<rparr>) =
       Inr (map instrument_dict
             (map (\<lambda>t. \<lparr> sh_figi = ''BBG'' @ t, sh_ticker = t, sh_name = t \<rparr>)
                  [''F'', ''E'', ''D'', ''C'', ''B'']))"
proof -
  have s: "shares (sample_world\<lparr> shares := Inr six_shares \<rparr>) = Inr six_shares" by simp
  from top_instruments_listing_order [OF s] s show ?thesis
    by (simp add: six_shares_def)
qed

end
